theory Spec2Isabelle
  imports Main "HOL-Library.Word"
begin

section \<open>constants.py: the two cyclic enumerations\<close>

text \<open>
  \<^verbatim>\<open>IRFrameFilter\<close> and \<^verbatim>\<open>IRMappingMode\<close> both have a member called NONE; the
  members are prefixed with the kind of mode where the names would collide.
\<close>

datatype IRFrameFilter = Filter_NONE | RAW | ILLUMINATED

datatype IRMappingMode = Mapping_NONE | GREEN | HEAT | JET

fun IRFrameFilter_value :: "IRFrameFilter \<Rightarrow> nat" where
  "IRFrameFilter_value Filter_NONE = 0"
| "IRFrameFilter_value RAW = 1"
| "IRFrameFilter_value ILLUMINATED = 2"

definition IRFrameFilter_members :: "IRFrameFilter list" where
  "IRFrameFilter_members = [Filter_NONE, RAW, ILLUMINATED]"

text \<open>\<^verbatim>\<open>members[(self.value + 1) % len(members)]\<close>; the index is always in range.\<close>

definition IRFrameFilter_next :: "IRFrameFilter \<Rightarrow> IRFrameFilter" where
  "IRFrameFilter_next f =
     IRFrameFilter_members ! ((IRFrameFilter_value f + 1) mod length IRFrameFilter_members)"

fun IRFrameFilter_display_name :: "IRFrameFilter \<Rightarrow> string" where
  "IRFrameFilter_display_name Filter_NONE = ''OFF''"
| "IRFrameFilter_display_name RAW = ''RAW''"
| "IRFrameFilter_display_name ILLUMINATED = ''ILLUM''"

fun IRMappingMode_value :: "IRMappingMode \<Rightarrow> nat" where
  "IRMappingMode_value Mapping_NONE = 0"
| "IRMappingMode_value GREEN = 1"
| "IRMappingMode_value HEAT = 2"
| "IRMappingMode_value JET = 3"

definition IRMappingMode_members :: "IRMappingMode list" where
  "IRMappingMode_members = [Mapping_NONE, GREEN, HEAT, JET]"

definition IRMappingMode_next :: "IRMappingMode \<Rightarrow> IRMappingMode" where
  "IRMappingMode_next m =
     IRMappingMode_members ! ((IRMappingMode_value m + 1) mod length IRMappingMode_members)"

section \<open>Frames and the libraries the controller calls\<close>

text \<open>
  A processed frame is the numpy array of shape (height, width, 4) that
  \<^verbatim>\<open>_convert_bitmap_to_frame\<close> builds: rows of BGRA pixels, each channel a
  \<^verbatim>\<open>uint8\<close>. The 3-channel frames handed to the video writer and to
  \<^verbatim>\<open>imwrite\<close> are rows of BGR pixels.
\<close>

type_synonym pixel = "8 word \<times> 8 word \<times> 8 word \<times> 8 word"
type_synonym bgr = "8 word \<times> 8 word \<times> 8 word"
type_synonym frame = "pixel list list"
type_synonym bgr_frame = "bgr list list"

text \<open>
  The code of OpenCV and of \<^verbatim>\<open>os.path\<close> is not part of the repository. What the
  controller needs from them and what is a table or a platform rule is a parameter:
  the luminance of a pixel (\<^verbatim>\<open>COLOR_BGRA2GRAY\<close>), the two colour lookup tables, and
  \<^verbatim>\<open>os.path.join\<close>.
\<close>

record libs =
  COLOR_BGRA2GRAY :: "pixel \<Rightarrow> 8 word"
  COLORMAP_HOT :: "8 word \<Rightarrow> bgr"
  COLORMAP_JET :: "8 word \<Rightarrow> bgr"
  path_join :: "string \<Rightarrow> string \<Rightarrow> string"

text \<open>\<^verbatim>\<open>COLOR_BGRA2BGR\<close> drops the alpha channel; \<^verbatim>\<open>COLOR_BGR2BGRA\<close> adds an opaque one.\<close>

definition COLOR_BGRA2BGR :: "frame \<Rightarrow> bgr_frame" where
  "COLOR_BGRA2BGR f = map (map (\<lambda>(b, g, r, a). (b, g, r))) f"

definition COLOR_BGR2BGRA :: "bgr_frame \<Rightarrow> frame" where
  "COLOR_BGR2BGRA f = map (map (\<lambda>(b, g, r). (b, g, r, 255))) f"

section \<open>The capture backend, as far as the controller looks at it\<close>

datatype error = BackendError

datatype MediaFrameSourceKind = INFRARED | COLOR | DEPTH

record device =
  display_name :: string
  source_infos :: "MediaFrameSourceKind list"

datatype MediaCaptureSharingMode = EXCLUSIVE_CONTROL | SHARED_READ_ONLY

datatype StreamingCaptureMode = VIDEO

datatype MediaCaptureMemoryPreference = CPU

datatype MediaFrameReaderAcquisitionMode = REALTIME | BUFFERED

record MediaCaptureInitializationSettings =
  source_group :: device
  sharing_mode :: MediaCaptureSharingMode
  streaming_capture_mode :: StreamingCaptureMode
  memory_preference :: MediaCaptureMemoryPreference

text \<open>
  A \<^verbatim>\<open>MediaCapture\<close> object is \<open>None\<close> between its construction and a completed
  \<^verbatim>\<open>initialize_with_settings_async\<close>, and the settings it was initialised with after.
\<close>

type_synonym MediaCapture = "MediaCaptureInitializationSettings option"

text \<open>A capture format is the (width, height) of its \<^verbatim>\<open>video_format\<close>.\<close>

type_synonym format = "int \<times> int"

record MediaFrameSource =
  supported_formats :: "format list"

record MediaFrameReader =
  source_format :: "format option"
  acquisition_mode :: MediaFrameReaderAcquisitionMode
  frame_arrived :: bool
  started :: bool

text \<open>
  What the backend answers during one \<^verbatim>\<open>select_device\<close>. Each awaited call
  either completes or raises: \<^verbatim>\<open>stop_async\<close> on the reader of the session before
  (line 139, through \<^verbatim>\<open>stop\<close>), \<^verbatim>\<open>initialize_with_settings_async\<close> in a
  sharing mode, \<^verbatim>\<open>set_format_async\<close> (line 180) and
  \<^verbatim>\<open>create_frame_reader_async\<close> (line 185). \<open>frame_sources\<close> are the values of
  \<^verbatim>\<open>media_capture.frame_sources\<close> in iteration order.
\<close>

record backend =
  stop_async_ok :: bool
  initialize_ok :: "MediaCaptureSharingMode \<Rightarrow> bool"
  frame_sources :: "MediaFrameSource option list"
  set_format_ok :: bool
  create_frame_reader_ok :: bool

text \<open>
  What the backend hands to one frame-arrived callback. Reading an attribute of a
  backend object either raises or gives a value (\<open>Inl\<close> is the exception).
  A \<^verbatim>\<open>SoftwareBitmap\<close> is the outcome of converting it to a BGRA8 array.
\<close>

type_synonym InfraredMediaFrame = "error + bool"

type_synonym SoftwareBitmap = "error + frame"

record VideoMediaFrame =
  infrared_media_frame :: "error + InfraredMediaFrame option"
  software_bitmap :: "error + SoftwareBitmap option"

type_synonym MediaFrame = "error + VideoMediaFrame option"

section \<open>camera_controller.py: the controller\<close>

record VideoWriter =
  filename :: string
  fourcc :: string
  fps :: int
  frameSize :: "int \<times> int"
  written :: "bgr_frame list"

text \<open>
  The fields of \<^verbatim>\<open>IRCameraController.__init__\<close> (the mutex apart: the methods are
  modelled one call at a time), followed by the part of the outside world the methods
  act on: the directories made by \<^verbatim>\<open>os.makedirs\<close>, the images written by
  \<^verbatim>\<open>cv2.imwrite\<close>, the paths of the video streams that are open, and the streams
  closed by \<^verbatim>\<open>release\<close>.
\<close>

record IRCameraController =
  media_capture :: "MediaCapture option"
  frame_reader :: "MediaFrameReader option"
  running :: bool
  frame_queue :: "frame list"
  last_frame :: "frame option"
  devices :: "device list"
  current_device_index :: int
  frame_width :: int
  frame_height :: int
  frame_filter :: IRFrameFilter
  mapping_mode :: IRMappingMode
  is_illuminated :: bool
  is_recording :: bool
  video_writer :: "VideoWriter option"
  video_path :: "string option"
  directories :: "string list"
  photo_files :: "(string \<times> bgr_frame) list"
  open_streams :: "string list"
  video_files :: "VideoWriter list"

definition init :: IRCameraController where
  "init = \<lparr>media_capture = None, frame_reader = None, running = False,
     frame_queue = [], last_frame = None,
     devices = [], current_device_index = 0, frame_width = 640, frame_height = 480,
     frame_filter = Filter_NONE, mapping_mode = Mapping_NONE, is_illuminated = False,
     is_recording = False, video_writer = None, video_path = None,
     directories = [], photo_files = [], open_streams = [], video_files = []\<rparr>"

subsection \<open>Properties\<close>

definition set_frame_filter :: "IRFrameFilter \<Rightarrow> IRCameraController \<Rightarrow> IRCameraController" where
  "set_frame_filter v s = s\<lparr>frame_filter := v\<rparr>"

definition set_mapping_mode :: "IRMappingMode \<Rightarrow> IRCameraController \<Rightarrow> IRCameraController" where
  "set_mapping_mode v s = s\<lparr>mapping_mode := v\<rparr>"

definition frame_size :: "IRCameraController \<Rightarrow> int \<times> int" where
  "frame_size s = (frame_width s, frame_height s)"

subsection \<open>Recording\<close>

text \<open>\<^verbatim>\<open>os.makedirs(save_dir, exist_ok=True)\<close>.\<close>

definition makedirs :: "string \<Rightarrow> IRCameraController \<Rightarrow> IRCameraController" where
  "makedirs d s = s\<lparr>directories := List.insert d (directories s)\<rparr>"

text \<open>
  \<^verbatim>\<open>start_recording(save_dir, base_fps)\<close>; \<open>now\<close> is the text that
  \<^verbatim>\<open>datetime.now().strftime("%Y%m%d_%H%M%S")\<close> gives at the call. Python's \<^verbatim>\<open>//\<close> on
  integers rounds down, as \<open>div\<close> on \<open>int\<close> does.
\<close>

definition start_recording ::
  "libs \<Rightarrow> string \<Rightarrow> int \<Rightarrow> string \<Rightarrow> IRCameraController \<Rightarrow> string option \<times> IRCameraController" where
  "start_recording lib save_dir base_fps now s =
     (if is_recording s then (None, s)
      else
        let s1 = makedirs save_dir s;
            actual_fps = (if frame_filter s1 = Filter_NONE then base_fps
                          else max (base_fps div 2) 7);
            filter_suffix = IRFrameFilter_display_name (frame_filter s1);
            path = path_join lib save_dir (''IR_Video_'' @ now @ ''_'' @ filter_suffix @ ''.avi'');
            w = \<lparr>filename = path, fourcc = ''XVID'', fps = actual_fps,
                 frameSize = (frame_width s1, frame_height s1), written = []\<rparr>
        in (Some path,
            s1\<lparr>video_path := Some path, video_writer := Some w,
               open_streams := path # open_streams s1, is_recording := True\<rparr>))"

text \<open>\<^verbatim>\<open>VideoWriter.release()\<close>: the stream is closed and what was written is the file.\<close>

definition release :: "VideoWriter \<Rightarrow> IRCameraController \<Rightarrow> IRCameraController" where
  "release w s = s\<lparr>open_streams := remove1 (filename w) (open_streams s),
                   video_files := video_files s @ [w]\<rparr>"

definition stop_recording :: "IRCameraController \<Rightarrow> string option \<times> IRCameraController" where
  "stop_recording s =
     (if \<not> is_recording s then (None, s)
      else
        let s1 = s\<lparr>is_recording := False\<rparr>;
            s2 = (case video_writer s1 of
                    None \<Rightarrow> s1
                  | Some w \<Rightarrow> (release w s1)\<lparr>video_writer := None\<rparr>);
            path = video_path s2
        in (path, s2\<lparr>video_path := None\<rparr>))"

subsection \<open>Frame processing\<close>

text \<open>
  \<^verbatim>\<open>_check_illumination\<close>: the bare \<^verbatim>\<open>except\<close> covers both reads, of the infrared
  sub-frame and of its flag. A sub-frame that is \<^verbatim>\<open>None\<close> takes neither branch.
\<close>

definition check_illumination :: "VideoMediaFrame \<Rightarrow> IRCameraController \<Rightarrow> IRCameraController" where
  "check_illumination video_frame s =
     (case infrared_media_frame video_frame of
        Inl e \<Rightarrow> s\<lparr>is_illuminated := False\<rparr>
      | Inr None \<Rightarrow> s
      | Inr (Some ir_frame) \<Rightarrow>
          (case ir_frame of
             Inl e \<Rightarrow> s\<lparr>is_illuminated := False\<rparr>
           | Inr flag \<Rightarrow> s\<lparr>is_illuminated := flag\<rparr>))"

definition should_display_frame :: "IRCameraController \<Rightarrow> bool" where
  "should_display_frame s =
     (if frame_filter s = Filter_NONE then True
      else if frame_filter s = RAW then \<not> is_illuminated s
      else if frame_filter s = ILLUMINATED then is_illuminated s
      else True)"

definition convert_bitmap_to_frame :: "SoftwareBitmap \<Rightarrow> frame option" where
  "convert_bitmap_to_frame bitmap = (case bitmap of Inl e \<Rightarrow> None | Inr f \<Rightarrow> Some f)"

text \<open>
  \<^verbatim>\<open>_apply_color_mapping\<close>. For GREEN the result starts as \<^verbatim>\<open>zeros_like(frame)\<close>,
  then channel 1 is the luminance and channel 3 is 255.
\<close>

definition apply_color_mapping :: "libs \<Rightarrow> frame \<Rightarrow> IRCameraController \<Rightarrow> frame" where
  "apply_color_mapping lib frame s =
     (if mapping_mode s = Mapping_NONE then frame
      else
        let gray = map (map (COLOR_BGRA2GRAY lib)) frame
        in if mapping_mode s = GREEN then map (map (\<lambda>y. (0, y, 0, 255))) gray
           else if mapping_mode s = HEAT then COLOR_BGR2BGRA (map (map (COLORMAP_HOT lib)) gray)
           else if mapping_mode s = JET then COLOR_BGR2BGRA (map (map (COLORMAP_JET lib)) gray)
           else frame)"

text \<open>
  The queue is \<^verbatim>\<open>Queue(maxsize=2)\<close>, first in first out. \<open>drain\<close> is the loop that
  empties it; \<open>put_nowait\<close> on a full queue raises \<^verbatim>\<open>Full\<close>, which the caller
  swallows.
\<close>

fun drain :: "frame list \<Rightarrow> frame list" where
  "drain [] = []"
| "drain (f # q) = drain q"

definition put_nowait :: "frame \<Rightarrow> frame list \<Rightarrow> frame list" where
  "put_nowait f q = (if length q < 2 then q @ [f] else q)"

definition write_frame :: "bgr_frame \<Rightarrow> VideoWriter \<Rightarrow> VideoWriter" where
  "write_frame f w = w\<lparr>written := written w @ [f]\<rparr>"

definition update_frame :: "libs \<Rightarrow> frame \<Rightarrow> IRCameraController \<Rightarrow> IRCameraController" where
  "update_frame lib frame0 s =
     (let frame = apply_color_mapping lib frame0 s;
          s1 = s\<lparr>last_frame := Some frame\<rparr>;
          s2 = (if is_recording s1
                then (case video_writer s1 of
                        None \<Rightarrow> s1
                      | Some w \<Rightarrow> s1\<lparr>video_writer := Some (write_frame (COLOR_BGRA2BGR frame) w)\<rparr>)
                else s1);
          s3 = s2\<lparr>frame_queue := drain (frame_queue s2)\<rparr>
      in s3\<lparr>frame_queue := put_nowait frame (frame_queue s3)\<rparr>)"

text \<open>
  \<^verbatim>\<open>_process_frame\<close>; \<open>acquired\<close> is the outcome of
  \<^verbatim>\<open>reader.try_acquire_latest_frame()\<close>. An exception leaves the state as the
  statements before it made it. The \<^verbatim>\<open>media_frame.close()\<close> of the
  \<^verbatim>\<open>finally\<close> gives a buffer back to the backend and touches no field of the
  controller.
\<close>

definition process_frame ::
  "libs \<Rightarrow> error + MediaFrame option \<Rightarrow> IRCameraController \<Rightarrow> (error + unit) \<times> IRCameraController" where
  "process_frame lib acquired s =
     (case acquired of
        Inl e \<Rightarrow> (Inl e, s)
      | Inr None \<Rightarrow> (Inr (), s)
      | Inr (Some media_frame) \<Rightarrow>
          (case media_frame of
             Inl e \<Rightarrow> (Inl e, s)
           | Inr None \<Rightarrow> (Inr (), s)
           | Inr (Some video_frame) \<Rightarrow>
               let s1 = check_illumination video_frame s
               in if \<not> should_display_frame s1 then (Inr (), s1)
                  else
                    (case software_bitmap video_frame of
                       Inl e \<Rightarrow> (Inl e, s1)
                     | Inr None \<Rightarrow> (Inr (), s1)
                     | Inr (Some bitmap) \<Rightarrow>
                         (case convert_bitmap_to_frame bitmap of
                            None \<Rightarrow> (Inr (), s1)
                          | Some frame \<Rightarrow> (Inr (), update_frame lib frame s1)))))"

text \<open>\<^verbatim>\<open>_on_frame_arrived\<close> swallows whatever \<^verbatim>\<open>_process_frame\<close> raises.\<close>

definition on_frame_arrived ::
  "libs \<Rightarrow> error + MediaFrame option \<Rightarrow> IRCameraController \<Rightarrow> IRCameraController" where
  "on_frame_arrived lib acquired s =
     (if \<not> running s then s else snd (process_frame lib acquired s))"

text \<open>
  \<^verbatim>\<open>Queue.get(block)\<close> of Python's \<^verbatim>\<open>queue\<close> module. On an empty queue it
  raises \<^verbatim>\<open>Empty\<close> when \<open>block\<close> is false; when \<open>block\<close> is true it waits for
  an item, and within one call of the controller none comes: the caller is blocked.
  \<^verbatim>\<open>get_nowait()\<close> is \<^verbatim>\<open>get(False)\<close>.
\<close>

datatype get_result = Item frame "frame list" | Raises_Empty | Blocked

definition Queue_get :: "bool \<Rightarrow> frame list \<Rightarrow> get_result" where
  "Queue_get block q =
     (case q of
        f # rest \<Rightarrow> Item f rest
      | [] \<Rightarrow> if block then Blocked else Raises_Empty)"

definition get_nowait :: "frame list \<Rightarrow> get_result" where
  "get_nowait q = Queue_get False q"

text \<open>
  \<^verbatim>\<open>get_frame\<close>. The result is \<open>None\<close> when the call does not return because the
  queue blocks it, and the returned frame with the new state otherwise.
\<close>

definition get_frame :: "IRCameraController \<Rightarrow> (frame option \<times> IRCameraController) option" where
  "get_frame s =
     (case get_nowait (frame_queue s) of
        Item f q \<Rightarrow> Some (Some f, s\<lparr>frame_queue := q\<rparr>)
      | Raises_Empty \<Rightarrow> Some (last_frame s, s)
      | Blocked \<Rightarrow> None)"

subsection \<open>Photo\<close>

definition take_photo ::
  "libs \<Rightarrow> string \<Rightarrow> string \<Rightarrow> IRCameraController \<Rightarrow> string option \<times> IRCameraController" where
  "take_photo lib save_dir now s =
     (case last_frame s of
        None \<Rightarrow> (None, s)
      | Some f \<Rightarrow>
          let s1 = makedirs save_dir s;
              filepath = path_join lib save_dir (''IR_Photo_'' @ now @ ''.jpg'');
              save_frame = COLOR_BGRA2BGR f
          in (Some filepath, s1\<lparr>photo_files := photo_files s1 @ [(filepath, save_frame)]\<rparr>))"

subsection \<open>Capture control\<close>

text \<open>
  \<^verbatim>\<open>start\<close>, \<^verbatim>\<open>stop\<close>, \<^verbatim>\<open>pause\<close> and \<^verbatim>\<open>resume\<close> as they run when
  the \<^verbatim>\<open>start_async\<close> or \<^verbatim>\<open>stop_async\<close> they await completes.
\<close>

definition start :: "IRCameraController \<Rightarrow> bool \<times> IRCameraController" where
  "start s =
     (case frame_reader s of
        None \<Rightarrow> (False, s)
      | Some r \<Rightarrow> (True, s\<lparr>running := True, frame_reader := Some (r\<lparr>started := True\<rparr>)\<rparr>))"

definition stop :: "IRCameraController \<Rightarrow> IRCameraController" where
  "stop s =
     (let s1 = s\<lparr>running := False\<rparr>;
          s2 = (if is_recording s1 then snd (stop_recording s1) else s1);
          s3 = (if frame_reader s2 \<noteq> None then s2\<lparr>frame_reader := None\<rparr> else s2)
      in if media_capture s3 \<noteq> None then s3\<lparr>media_capture := None\<rparr> else s3)"

text \<open>
  What \<^verbatim>\<open>stop\<close> has done when its \<^verbatim>\<open>stop_async\<close> (line 210) raises: the
  statements before it. The reader and the capture handle stay.
\<close>

definition stop_until_stop_async :: "IRCameraController \<Rightarrow> IRCameraController" where
  "stop_until_stop_async s =
     (let s1 = s\<lparr>running := False\<rparr>
      in if is_recording s1 then snd (stop_recording s1) else s1)"

definition pause :: "IRCameraController \<Rightarrow> IRCameraController" where
  "pause s =
     (case frame_reader s of
        None \<Rightarrow> s
      | Some r \<Rightarrow> s\<lparr>frame_reader := Some (r\<lparr>started := False\<rparr>)\<rparr>)"

definition resume :: "IRCameraController \<Rightarrow> IRCameraController" where
  "resume s =
     (case frame_reader s of
        None \<Rightarrow> s
      | Some r \<Rightarrow> s\<lparr>frame_reader := Some (r\<lparr>started := True\<rparr>)\<rparr>)"

subsection \<open>Device management\<close>

text \<open>\<^verbatim>\<open>find_ir_cameras\<close>; \<open>found\<close> is what \<^verbatim>\<open>find_all_async\<close> enumerates.\<close>

definition find_ir_cameras :: "device list \<Rightarrow> IRCameraController \<Rightarrow> device list \<times> IRCameraController" where
  "find_ir_cameras found s =
     (let ds = filter (\<lambda>d. INFRARED \<in> set (source_infos d)) found
      in (ds, s\<lparr>devices := ds\<rparr>))"

definition get_device_names :: "IRCameraController \<Rightarrow> string list" where
  "get_device_names s = map display_name (devices s)"

text \<open>
  Python's \<^verbatim>\<open>max(formats, key=...)\<close> keeps the first of the maximal entries: the
  candidate changes only for a strictly larger key.
\<close>

fun max_by :: "('a \<Rightarrow> int) \<Rightarrow> 'a \<Rightarrow> 'a list \<Rightarrow> 'a" where
  "max_by key best [] = best"
| "max_by key best (x # xs) = max_by key (if key best < key x then x else best) xs"

text \<open>
  Lines 185 to 189 of \<^verbatim>\<open>select_device\<close>: the frame reader is created on the
  frame source, whose format is \<open>fmt\<close>, unless \<^verbatim>\<open>create_frame_reader_async\<close>
  raises.
\<close>

definition create_frame_reader ::
  "backend \<Rightarrow> format option \<Rightarrow> IRCameraController \<Rightarrow> (error + bool) \<times> IRCameraController" where
  "create_frame_reader be fmt s =
     (if \<not> create_frame_reader_ok be then (Inl BackendError, s)
      else
        (Inr True,
         s\<lparr>frame_reader := Some \<lparr>source_format = fmt, acquisition_mode = REALTIME,
                                  frame_arrived = True, started = False\<rparr>\<rparr>))"

text \<open>
  The part of \<^verbatim>\<open>select_device\<close> after \<^verbatim>\<open>MediaCapture\<close> is initialised with
  \<open>settings\<close>: frame source, best format, frame reader. Width and height are
  assigned after \<^verbatim>\<open>set_format_async\<close> has completed.
\<close>

definition open_frame_reader ::
  "backend \<Rightarrow> MediaCaptureInitializationSettings \<Rightarrow> IRCameraController
     \<Rightarrow> (error + bool) \<times> IRCameraController" where
  "open_frame_reader be settings s =
     (let s1 = s\<lparr>media_capture := Some (Some settings)\<rparr>
      in case frame_sources be of
           [] \<Rightarrow> (Inr False, s1)
         | None # rest \<Rightarrow> (Inr False, s1)
         | Some frame_source # rest \<Rightarrow>
             (case supported_formats frame_source of
                [] \<Rightarrow> create_frame_reader be None s1
              | f # fs \<Rightarrow>
                  let best_format = max_by (\<lambda>(w, h). w * h) f fs
                  in if \<not> set_format_ok be then (Inl BackendError, s1)
                     else create_frame_reader be (Some best_format)
                            (s1\<lparr>frame_width := fst best_format,
                                frame_height := snd best_format\<rparr>)))"

text \<open>
  \<^verbatim>\<open>select_device(index, exclusive)\<close>. \<open>Inl\<close> is an exception that leaves the
  method: of \<^verbatim>\<open>stop\<close> (line 139), of the \<^verbatim>\<open>raise\<close> of line 162 or of the
  unguarded second attempt of line 160, of lines 180 and 185. The state is then what
  the statements before it made it.
\<close>

definition select_device ::
  "backend \<Rightarrow> int \<Rightarrow> bool \<Rightarrow> IRCameraController \<Rightarrow> (error + bool) \<times> IRCameraController" where
  "select_device be index exclusive s =
     (if index < 0 \<or> index \<ge> int (length (devices s)) then (Inr False, s)
      else if frame_reader s \<noteq> None \<and> \<not> stop_async_ok be
      then (Inl BackendError, stop_until_stop_async s)
      else
        let s1 = (if frame_reader s \<noteq> None then stop s else s);
            dev = devices s1 ! nat index;
            s2 = s1\<lparr>current_device_index := index, media_capture := Some None\<rparr>;
            settings = \<lparr>source_group = dev,
                        sharing_mode = (if exclusive then EXCLUSIVE_CONTROL else SHARED_READ_ONLY),
                        streaming_capture_mode = VIDEO, memory_preference = CPU\<rparr>
        in if initialize_ok be (sharing_mode settings) then open_frame_reader be settings s2
           else if exclusive then
             (let settings' = settings\<lparr>sharing_mode := SHARED_READ_ONLY\<rparr>
              in if initialize_ok be SHARED_READ_ONLY then open_frame_reader be settings' s2
                 else (Inl BackendError, s2))
           else (Inl BackendError, s2))"

section \<open>Sequences of calls\<close>

text \<open>
  One constructor for each thing that can happen to a controller: a call of a public
  method or an assignment to a property by the application, or a frame-arrived callback
  from the backend. Each carries the arguments of the call and what the outside world
  answers during it.
\<close>

datatype call =
    Find_ir_cameras "device list"
  | Select_device backend int bool
  | Start
  | Stop
  | Pause
  | Resume
  | Get_frame
  | On_frame_arrived "error + MediaFrame option"
  | Set_frame_filter IRFrameFilter
  | Set_mapping_mode IRMappingMode
  | Take_photo string string
  | Start_recording string int string
  | Stop_recording

fun step :: "libs \<Rightarrow> call \<Rightarrow> IRCameraController \<Rightarrow> IRCameraController" where
  "step lib (Find_ir_cameras found) s = snd (find_ir_cameras found s)"
| "step lib (Select_device be index exclusive) s = snd (select_device be index exclusive s)"
| "step lib Start s = snd (start s)"
| "step lib Stop s = stop s"
| "step lib Pause s = pause s"
| "step lib Resume s = resume s"
| "step lib Get_frame s = (case get_frame s of None \<Rightarrow> s | Some (r, t) \<Rightarrow> t)"
| "step lib (On_frame_arrived acquired) s = on_frame_arrived lib acquired s"
| "step lib (Set_frame_filter v) s = set_frame_filter v s"
| "step lib (Set_mapping_mode v) s = set_mapping_mode v s"
| "step lib (Take_photo save_dir now) s = snd (take_photo lib save_dir now s)"
| "step lib (Start_recording save_dir base_fps now) s = snd (start_recording lib save_dir base_fps now s)"
| "step lib Stop_recording s = snd (stop_recording s)"

fun run :: "libs \<Rightarrow> call list \<Rightarrow> IRCameraController \<Rightarrow> IRCameraController" where
  "run lib [] s = s"
| "run lib (c # cs) s = run lib cs (step lib c s)"

section \<open>Definitions used to state the properties\<close>

text \<open>
  The truth table of the specification's frame filter, written from its words: NONE
  always forwards, RAW_ONLY forwards iff not illuminated, ILLUMINATED_ONLY forwards
  iff illuminated.
\<close>

fun spec_should_forward :: "IRFrameFilter \<Rightarrow> bool \<Rightarrow> bool" where
  "spec_should_forward Filter_NONE illuminated = True"
| "spec_should_forward RAW illuminated = (\<not> illuminated)"
| "spec_should_forward ILLUMINATED illuminated = illuminated"

text \<open>
  What every sequence of calls preserves: the controller is recording exactly when it
  holds a video writer, and the stream of that writer is the only one open.
\<close>

definition consistent :: "IRCameraController \<Rightarrow> bool" where
  "consistent s =
     (case video_writer s of
        None \<Rightarrow> \<not> is_recording s \<and> open_streams s = []
      | Some w \<Rightarrow> is_recording s \<and> open_streams s = [filename w])"

text \<open>
  The calls that do not end a recording: every call but \<^verbatim>\<open>stop_recording\<close>, and
  \<^verbatim>\<open>stop\<close> and \<^verbatim>\<open>select_device\<close>, which call it.
\<close>

fun keeps_recording :: "call \<Rightarrow> bool" where
  "keeps_recording Stop_recording = False"
| "keeps_recording Stop = False"
| "keeps_recording (Select_device be index exclusive) = False"
| "keeps_recording c = True"

text \<open>
  The backend opens a device for a controller: every call that \<^verbatim>\<open>select_device\<close>
  awaits completes (the stop of the session before when there is one, the
  initialisation in the mode asked for or in the shared mode it falls back to, the
  format and the reader), and a first frame source is listed.
\<close>

definition backend_opens :: "backend \<Rightarrow> bool \<Rightarrow> IRCameraController \<Rightarrow> bool" where
  "backend_opens be exclusive s =
     ((frame_reader s = None \<or> stop_async_ok be) \<and>
      (initialize_ok be SHARED_READ_ONLY \<or> exclusive \<and> initialize_ok be EXCLUSIVE_CONTROL) \<and>
      (case frame_sources be of Some src # rest \<Rightarrow> True | _ \<Rightarrow> False) \<and>
      set_format_ok be \<and> create_frame_reader_ok be)"

text \<open>
  What a recording is made with: whether the controller records, to which path, the
  settings the writer was opened with, and the streams that are open.
\<close>

definition recording_settings ::
  "IRCameraController
     \<Rightarrow> bool \<times> string option \<times> (string \<times> string \<times> int \<times> int \<times> int) option \<times> string list" where
  "recording_settings s =
     (is_recording s, video_path s,
      map_option (\<lambda>w. (filename w, fourcc w, fps w, frameSize w)) (video_writer s),
      open_streams s)"

text \<open>Values for the concrete instances: a platform, two frames.\<close>

definition sample_libs :: libs where
  "sample_libs = \<lparr>COLOR_BGRA2GRAY = (\<lambda>(b, g, r, a). g), COLORMAP_HOT = (\<lambda>y. (0, 0, y)),
     COLORMAP_JET = (\<lambda>y. (y, 0, 0)), path_join = (\<lambda>d n. d @ ''/'' @ n)\<rparr>"

definition frame_A :: frame where
  "frame_A = [[(1, 2, 3, 255)]]"

definition frame_B :: frame where
  "frame_B = [[(4, 5, 6, 255)]]"

text \<open>A controller that records: a recording started on the initial controller.\<close>

definition recording_sample :: IRCameraController where
  "recording_sample = snd (start_recording sample_libs ''videos'' 15 ''20240101_120000'' init)"

text \<open>The calls that are frame-arrived callbacks; every other call comes from the application.\<close>

fun is_callback :: "call \<Rightarrow> bool" where
  "is_callback (On_frame_arrived acquired) = True"
| "is_callback c = False"

text \<open>
  Two infrared devices as discovered, a backend that opens them, a backend that
  initialises but lists no frame source.
\<close>

definition device_A :: device where
  "device_A = \<lparr>display_name = ''A'', source_infos = [INFRARED]\<rparr>"

definition device_B :: device where
  "device_B = \<lparr>display_name = ''B'', source_infos = [COLOR, INFRARED]\<rparr>"

definition two_devices :: IRCameraController where
  "two_devices = snd (find_ir_cameras [device_A, device_B] init)"

definition working_backend :: backend where
  "working_backend = \<lparr>stop_async_ok = True, initialize_ok = (\<lambda>m. True),
     frame_sources = [Some \<lparr>supported_formats = [(640, 480), (1280, 720), (720, 1280)]\<rparr>],
     set_format_ok = True, create_frame_reader_ok = True\<rparr>"

definition backend_without_sources :: backend where
  "backend_without_sources = \<lparr>stop_async_ok = True, initialize_ok = (\<lambda>m. True),
     frame_sources = [], set_format_ok = True, create_frame_reader_ok = True\<rparr>"

text \<open>A session that runs: device 0 selected and started.\<close>

definition running_session :: IRCameraController where
  "running_session = run sample_libs [Select_device working_backend 0 False, Start] two_devices"

text \<open>
  Two video frames as the backend delivers them: one flagged illuminated, one with no
  infrared sub-frame. And the controller after it has selected and started device 0,
  set the filter to ILLUMINATED and processed the illuminated frame.
\<close>

definition illuminated_frame :: VideoMediaFrame where
  "illuminated_frame =
     \<lparr>infrared_media_frame = Inr (Some (Inr True)), software_bitmap = Inr (Some (Inr frame_A))\<rparr>"

definition frame_without_infrared :: VideoMediaFrame where
  "frame_without_infrared =
     \<lparr>infrared_media_frame = Inr None, software_bitmap = Inr (Some (Inr frame_B))\<rparr>"

definition after_illuminated_frame :: IRCameraController where
  "after_illuminated_frame =
     run sample_libs [Select_device working_backend 0 False, Start, Set_frame_filter ILLUMINATED,
        On_frame_arrived (Inr (Some (Inr (Some illuminated_frame))))] two_devices"

text \<open>
  A session that records: device 0 selected and started, a recording started, one
  frame processed.
\<close>

definition recording_session :: IRCameraController where
  "recording_session =
     run sample_libs [Select_device working_backend 0 False, Start,
        Start_recording ''videos'' 15 ''20240101_120000'',
        On_frame_arrived (Inr (Some (Inr (Some illuminated_frame))))] two_devices"

section \<open>Frame filter and colour mapping\<close>

text \<open>
  C1. For every filter mode and illumination flag, the decision of
  \<^verbatim>\<open>_should_display_frame\<close> is the one of the specification's truth table: NONE
  forwards every frame, RAW forwards a frame iff it is not illuminated, ILLUMINATED
  forwards a frame iff it is illuminated.
\<close>

theorem should_display_frame_truth_table:
  "should_display_frame s = spec_should_forward (frame_filter s) (is_illuminated s)"
  by (cases "frame_filter s") (simp_all add: should_display_frame_def)

text \<open>
  C6. With mapping mode NONE, \<^verbatim>\<open>_apply_color_mapping\<close> returns its input frame
  unchanged, for every frame.
\<close>

theorem apply_color_mapping_NONE_identity:
  "apply_color_mapping lib frame (set_mapping_mode Mapping_NONE s) = frame"
  by (simp add: apply_color_mapping_def set_mapping_mode_def)

section \<open>Recording\<close>

text \<open>
  C2. Starting a recording on an idle controller opens the video writer at
  \<open>base_fps\<close> when the filter mode is NONE, and at \<open>max (base_fps div 2) 7\<close>
  when it is RAW or ILLUMINATED; the writer writes to the returned path and the
  controller records.
\<close>

theorem start_recording_rate:
  assumes "\<not> is_recording s"
  shows "map_option fps (video_writer (snd (start_recording lib save_dir base_fps now s)))
           = Some (if frame_filter s = Filter_NONE then base_fps else max (base_fps div 2) 7) \<and>
         is_recording (snd (start_recording lib save_dir base_fps now s)) \<and>
         map_option filename (video_writer (snd (start_recording lib save_dir base_fps now s)))
           = fst (start_recording lib save_dir base_fps now s)"
  using assms by (simp add: start_recording_def makedirs_def Let_def)

text \<open>With \<open>base_fps = 15\<close>: 15 under NONE, 7 under RAW and under ILLUMINATED.\<close>

theorem start_recording_rate_witness:
  "\<not> is_recording init \<and> \<not> is_recording (set_frame_filter RAW init) \<and>
   \<not> is_recording (set_frame_filter ILLUMINATED init) \<and>
   map_option fps (video_writer (snd (start_recording sample_libs ''videos'' 15 ''20240101_120000''
       init))) = Some 15 \<and>
   map_option fps (video_writer (snd (start_recording sample_libs ''videos'' 15 ''20240101_120000''
       (set_frame_filter RAW init)))) = Some 7 \<and>
   map_option fps (video_writer (snd (start_recording sample_libs ''videos'' 15 ''20240101_120000''
       (set_frame_filter ILLUMINATED init)))) = Some 7"
  using start_recording_rate [of init sample_libs "''videos''" 15 "''20240101_120000''"]
    start_recording_rate [of "set_frame_filter RAW init" sample_libs "''videos''" 15
      "''20240101_120000''"]
    start_recording_rate [of "set_frame_filter ILLUMINATED init" sample_libs "''videos''" 15
      "''20240101_120000''"]
  by (simp add: init_def set_frame_filter_def)

text \<open>
  A run of assignments to \<^verbatim>\<open>frame_filter\<close>, each value computed from the controller
  as it then is (a constant, or \<^verbatim>\<open>frame_filter.next()\<close>), touches nothing of the
  recording.
\<close>

lemma assignments_keep_recording:
  "let s2 = foldl (\<lambda>t v. set_frame_filter (v t) t) s1 vs
   in video_writer s2 = video_writer s1 \<and> video_path s2 = video_path s1 \<and>
      is_recording s2 = is_recording s1 \<and> open_streams s2 = open_streams s1"
  by (induction vs arbitrary: s1) (simp_all add: Let_def set_frame_filter_def)

text \<open>
  While the controller records, a call that does not end the recording leaves it
  recording, with the same path, and the same rate, file name and frame size in the
  writer: a processed frame is appended to what is written and changes nothing else.
\<close>

lemma recording_settings_fields:
  assumes "recording_settings t = recording_settings s"
  shows "is_recording t = is_recording s \<and> video_path t = video_path s \<and>
         map_option fps (video_writer t) = map_option fps (video_writer s) \<and>
         map_option filename (video_writer t) = map_option filename (video_writer s) \<and>
         open_streams t = open_streams s"
  using assms
  by (cases "video_writer t"; cases "video_writer s") (simp_all add: recording_settings_def)

lemma recording_settings_check_illumination:
  "recording_settings (check_illumination vf s) = recording_settings s"
  by (simp add: recording_settings_def check_illumination_def split: sum.splits option.splits)

lemma recording_settings_update_frame:
  "recording_settings (update_frame lib f s) = recording_settings s"
  by (simp add: recording_settings_def update_frame_def write_frame_def Let_def
      split: option.splits)

lemma recording_settings_on_frame_arrived:
  "recording_settings (on_frame_arrived lib acquired s) = recording_settings s"
  by (simp add: on_frame_arrived_def process_frame_def Let_def
      recording_settings_check_illumination recording_settings_update_frame
      split: sum.splits option.splits)

lemma recording_settings_step:
  assumes "is_recording s" and "keeps_recording c"
  shows "recording_settings (step lib c s) = recording_settings s"
proof (cases c)
  case (On_frame_arrived acquired)
  then show ?thesis
    by (simp add: recording_settings_on_frame_arrived)
next
  case (Start_recording save_dir base_fps now)
  then show ?thesis
    using assms by (simp add: start_recording_def)
next
  case Get_frame
  then show ?thesis
    by (simp add: recording_settings_def get_frame_def get_nowait_def Queue_get_def
        split: list.splits)
next
  case (Take_photo save_dir now)
  then show ?thesis
    by (simp add: recording_settings_def take_photo_def makedirs_def Let_def
        split: option.splits)
qed (use assms in \<open>simp_all add: recording_settings_def find_ir_cameras_def Let_def start_def
      pause_def resume_def set_frame_filter_def set_mapping_mode_def split: option.splits\<close>)

lemma recording_settings_run:
  assumes "is_recording s" and "list_all keeps_recording cs"
  shows "recording_settings (run lib cs s) = recording_settings s"
  using assms
proof (induction cs arbitrary: s)
  case Nil
  then show ?case by simp
next
  case (Cons c cs)
  have k: "keeps_recording c" and ks: "list_all keeps_recording cs"
    using Cons.prems(2) by simp_all
  have e: "recording_settings (step lib c s) = recording_settings s"
    by (rule recording_settings_step [OF Cons.prems(1) k])
  then have "is_recording (step lib c s)"
    using Cons.prems(1) by (simp add: recording_settings_def)
  then have "recording_settings (run lib cs (step lib c s)) = recording_settings (step lib c s)"
    using ks by (rule Cons.IH)
  then show ?case
    using e by simp
qed

text \<open>
  C3. The rate that \<^verbatim>\<open>start_recording\<close> chooses on an idle controller stays for
  the lifetime of the recording. Whatever calls follow that do not end the recording
  (frames arriving and being written, assignments to \<^verbatim>\<open>frame_filter\<close> and to
  \<^verbatim>\<open>mapping_mode\<close>, reads, photos, pause and resume, a second
  \<^verbatim>\<open>start_recording\<close>), the controller still records, to the path returned by
  the start, with a writer of the rate chosen from the filter mode at the start. And any
  sequence of assignments to \<^verbatim>\<open>frame_filter\<close>, also of
  \<^verbatim>\<open>frame_filter.next()\<close>, leaves the video writer and the path as they are.
\<close>

theorem recording_rate_fixed:
  assumes "\<not> is_recording s" and "list_all keeps_recording cs"
  shows "let s1 = snd (start_recording lib save_dir base_fps now s);
             s2 = foldl (\<lambda>t v. set_frame_filter (v t) t) s1 vs;
             s3 = run lib cs s1
         in is_recording s2 \<and> video_writer s2 = video_writer s1 \<and> video_path s2 = video_path s1 \<and>
            map_option fps (video_writer s2)
              = Some (if frame_filter s = Filter_NONE then base_fps else max (base_fps div 2) 7) \<and>
            map_option filename (video_writer s2) = fst (start_recording lib save_dir base_fps now s) \<and>
            is_recording s3 \<and> video_path s3 = fst (start_recording lib save_dir base_fps now s) \<and>
            map_option fps (video_writer s3)
              = Some (if frame_filter s = Filter_NONE then base_fps else max (base_fps div 2) 7) \<and>
            map_option filename (video_writer s3) = fst (start_recording lib save_dir base_fps now s) \<and>
            recording_settings s3 = recording_settings s1"
proof -
  define s1 where "s1 = snd (start_recording lib save_dir base_fps now s)"
  have a: "is_recording s1"
    "map_option fps (video_writer s1)
       = Some (if frame_filter s = Filter_NONE then base_fps else max (base_fps div 2) 7)"
    "map_option filename (video_writer s1) = fst (start_recording lib save_dir base_fps now s)"
    "video_path s1 = fst (start_recording lib save_dir base_fps now s)"
    using assms(1) by (simp_all add: s1_def start_recording_def makedirs_def Let_def)
  have r: "recording_settings (run lib cs s1) = recording_settings s1"
    by (rule recording_settings_run [OF a(1) assms(2)])
  have b: "is_recording (run lib cs s1) = is_recording s1"
    "video_path (run lib cs s1) = video_path s1"
    "map_option fps (video_writer (run lib cs s1)) = map_option fps (video_writer s1)"
    "map_option filename (video_writer (run lib cs s1)) = map_option filename (video_writer s1)"
    using recording_settings_fields [OF r] by simp_all
  have c: "is_recording (run lib cs s1)"
    "video_path (run lib cs s1) = fst (start_recording lib save_dir base_fps now s)"
    "map_option fps (video_writer (run lib cs s1))
       = Some (if frame_filter s = Filter_NONE then base_fps else max (base_fps div 2) 7)"
    "map_option filename (video_writer (run lib cs s1))
       = fst (start_recording lib save_dir base_fps now s)"
    using a(1) b(1) trans [OF b(2) a(4)] trans [OF b(3) a(2)] trans [OF b(4) a(3)]
    by blast+
  have d: "is_recording (foldl (\<lambda>t v. set_frame_filter (v t) t) s1 vs)"
    "video_writer (foldl (\<lambda>t v. set_frame_filter (v t) t) s1 vs) = video_writer s1"
    "video_path (foldl (\<lambda>t v. set_frame_filter (v t) t) s1 vs) = video_path s1"
    using a(1) assignments_keep_recording [of s1 vs] by (simp_all add: Let_def)
  show ?thesis
    unfolding Let_def s1_def [symmetric]
    using a(2) a(3) c d r by (simp only: simp_thms)
qed

text \<open>
  A recording started under NONE at 15 frames a second on a running session; then the
  filter is set to RAW, a frame arrives and is written, a photo is taken, the filter is
  advanced: the writer still has rate 15 and the name with the suffix OFF.
\<close>

theorem recording_rate_fixed_witness:
  "\<not> is_recording running_session \<and>
   list_all keeps_recording
     [Set_frame_filter RAW, On_frame_arrived (Inr (Some (Inr (Some frame_without_infrared)))),
      Get_frame, Take_photo ''photos'' ''20240101_120001'', Set_mapping_mode GREEN] \<and>
   (let s1 = snd (start_recording sample_libs ''videos'' 15 ''20240101_120000'' running_session);
        s2 = foldl (\<lambda>t v. set_frame_filter (v t) t) s1
               [\<lambda>t. IRFrameFilter_next (frame_filter t), \<lambda>t. ILLUMINATED];
        s3 = run sample_libs
               [Set_frame_filter RAW,
                On_frame_arrived (Inr (Some (Inr (Some frame_without_infrared)))),
                Get_frame, Take_photo ''photos'' ''20240101_120001'', Set_mapping_mode GREEN] s1
    in frame_filter s2 = ILLUMINATED \<and> map_option fps (video_writer s2) = Some 15 \<and>
       map_option filename (video_writer s2) = Some ''videos/IR_Video_20240101_120000_OFF.avi'' \<and>
       frame_filter s3 = RAW \<and> map_option written (video_writer s3) = Some [[[(4, 5, 6)]]] \<and>
       map_option fps (video_writer s3) = Some 15 \<and>
       map_option filename (video_writer s3) = Some ''videos/IR_Video_20240101_120000_OFF.avi'')"
  using recording_rate_fixed [of running_session
      "[Set_frame_filter RAW, On_frame_arrived (Inr (Some (Inr (Some frame_without_infrared)))),
        Get_frame, Take_photo ''photos'' ''20240101_120001'', Set_mapping_mode GREEN]"
      sample_libs "''videos''" 15 "''20240101_120000''"
      "[\<lambda>t. IRFrameFilter_next (frame_filter t), \<lambda>t. ILLUMINATED]"]
  by (simp add: running_session_def two_devices_def find_ir_cameras_def init_def
      device_A_def device_B_def working_backend_def select_device_def open_frame_reader_def
      create_frame_reader_def start_def set_frame_filter_def set_mapping_mode_def
      on_frame_arrived_def process_frame_def check_illumination_def should_display_frame_def
      convert_bitmap_to_frame_def update_frame_def apply_color_mapping_def put_nowait_def
      frame_without_infrared_def Let_def start_recording_def makedirs_def sample_libs_def
      write_frame_def COLOR_BGRA2BGR_def frame_B_def get_frame_def get_nowait_def Queue_get_def
      take_photo_def)

text \<open>
  C5. \<^verbatim>\<open>stop_recording\<close> on an idle controller returns none and changes nothing;
  on a recording controller it returns the recording's path, and afterwards the
  controller is idle, holds no writer and no path, and the writer it held is released.
  \<^verbatim>\<open>start_recording\<close> on a recording controller returns none and changes nothing.
  A start on an idle controller followed by a stop returns the same path twice and
  leaves no stream open that was not open before.
\<close>

theorem recording_misuse_is_noop:
  "(\<not> is_recording s \<longrightarrow> stop_recording s = (None, s)) \<and>
   (is_recording s \<longrightarrow>
      fst (stop_recording s) = video_path s \<and>
      \<not> is_recording (snd (stop_recording s)) \<and>
      video_writer (snd (stop_recording s)) = None \<and>
      video_path (snd (stop_recording s)) = None \<and>
      (\<forall>w. video_writer s = Some w \<longrightarrow>
         video_files (snd (stop_recording s)) = video_files s @ [w] \<and>
         open_streams (snd (stop_recording s)) = remove1 (filename w) (open_streams s)) \<and>
      start_recording lib save_dir base_fps now s = (None, s)) \<and>
   (\<not> is_recording s \<longrightarrow>
      (let r = start_recording lib save_dir base_fps now s
       in fst r \<noteq> None \<and> is_recording (snd r) \<and> fst (stop_recording (snd r)) = fst r \<and>
          open_streams (snd (stop_recording (snd r))) = open_streams s))"
  by (auto simp add: stop_recording_def start_recording_def release_def makedirs_def Let_def
      split: option.splits)

theorem recording_misuse_is_noop_witness:
  "\<not> is_recording init \<and> is_recording recording_sample \<and>
   stop_recording init = (None, init) \<and>
   start_recording sample_libs ''videos'' 30 ''20240101_120500'' recording_sample
     = (None, recording_sample) \<and>
   fst (stop_recording recording_sample) = Some ''videos/IR_Video_20240101_120000_OFF.avi'' \<and>
   snd (stop_recording recording_sample) =
     init\<lparr>directories := [''videos''],
          video_files := [\<lparr>filename = ''videos/IR_Video_20240101_120000_OFF.avi'',
             fourcc = ''XVID'', fps = 15, frameSize = (640, 480), written = []\<rparr>]\<rparr>"
  using recording_misuse_is_noop [of init sample_libs "''videos''" 15 "''20240101_120000''"]
    recording_misuse_is_noop [of recording_sample sample_libs "''videos''" 30
      "''20240101_120500''"]
  by (simp add: recording_sample_def init_def start_recording_def stop_recording_def
      release_def makedirs_def sample_libs_def Let_def)

section \<open>The frame buffer\<close>

lemma drain_empties: "drain q = []"
  by (induction q) simp_all

lemma update_frame_buffer:
  "frame_queue (update_frame lib f s) = [apply_color_mapping lib f s]"
  "last_frame (update_frame lib f s) = Some (apply_color_mapping lib f s)"
  "mapping_mode (update_frame lib f s) = mapping_mode s"
  by (simp_all add: update_frame_def Let_def drain_empties put_nowait_def split: option.splits)

lemma apply_color_mapping_mode:
  "mapping_mode t = mapping_mode s \<Longrightarrow> apply_color_mapping lib f t = apply_color_mapping lib f s"
  by (simp add: apply_color_mapping_def Let_def)

lemma last_frame_stop_recording: "last_frame (snd (stop_recording s)) = last_frame s"
  by (simp add: stop_recording_def release_def Let_def split: option.splits)

lemma last_frame_stop: "last_frame (stop s) = last_frame s"
  by (simp add: stop_def Let_def last_frame_stop_recording)

lemma last_frame_stop_until_stop_async: "last_frame (stop_until_stop_async s) = last_frame s"
  by (simp add: stop_until_stop_async_def Let_def last_frame_stop_recording)

lemma last_frame_open_frame_reader: "last_frame (snd (open_frame_reader be st s)) = last_frame s"
  by (simp add: open_frame_reader_def create_frame_reader_def Let_def
      split: list.splits option.splits)

lemma last_frame_select_device: "last_frame (snd (select_device be i ex s)) = last_frame s"
  by (simp add: select_device_def Let_def last_frame_open_frame_reader last_frame_stop
      last_frame_stop_until_stop_async)

lemma last_frame_check_illumination: "last_frame (check_illumination vf s) = last_frame s"
  by (simp add: check_illumination_def split: sum.splits option.splits)

lemma last_frame_on_frame_arrived:
  "last_frame s \<noteq> None \<Longrightarrow> last_frame (on_frame_arrived lib acquired s) \<noteq> None"
  by (auto simp add: on_frame_arrived_def process_frame_def Let_def update_frame_buffer
      last_frame_check_illumination split: sum.splits option.splits)

lemma last_frame_step_other:
  "\<not> is_callback c \<Longrightarrow> last_frame (step lib c s) = last_frame s"
  by (cases c)
    (simp_all add: find_ir_cameras_def last_frame_select_device start_def last_frame_stop pause_def
      resume_def get_frame_def get_nowait_def Queue_get_def set_frame_filter_def
      set_mapping_mode_def take_photo_def makedirs_def start_recording_def
      last_frame_stop_recording Let_def split: option.splits list.splits)

lemma last_frame_step:
  assumes "last_frame s \<noteq> None"
  shows "last_frame (step lib c s) \<noteq> None"
proof (cases "is_callback c")
  case True
  then obtain acquired where "c = On_frame_arrived acquired"
    by (cases c) simp_all
  then show ?thesis
    using last_frame_on_frame_arrived [OF assms, of lib acquired] by simp
next
  case False
  then show ?thesis
    using assms by (simp add: last_frame_step_other)
qed

lemma last_frame_run:
  "last_frame s \<noteq> None \<Longrightarrow> last_frame (run lib cs s) \<noteq> None"
proof (induction cs arbitrary: s)
  case Nil
  then show ?case by simp
next
  case (Cons c cs)
  show ?case
    using Cons.IH [OF last_frame_step [OF Cons.prems, of lib c]] by simp
qed

lemma last_frame_run_other:
  "list_all (\<lambda>c. \<not> is_callback c) cs \<Longrightarrow> last_frame (run lib cs s) = last_frame s"
  by (induction cs arbitrary: s) (simp_all add: last_frame_step_other)

text \<open>
  \<^verbatim>\<open>get_frame\<close> returns in every state: a frame from the queue, or what
  \<^verbatim>\<open>_last_frame\<close> holds when the queue is empty.
\<close>

lemma get_frame_returns:
  "get_frame s =
     (case frame_queue s of
        [] \<Rightarrow> Some (last_frame s, s)
      | f # q \<Rightarrow> Some (Some f, s\<lparr>frame_queue := q\<rparr>))"
  by (simp add: get_frame_def get_nowait_def Queue_get_def split: list.splits)

text \<open>
  C4. The frame buffer (the queue together with \<^verbatim>\<open>_last_frame\<close>) keeps the latest
  frame only. After \<^verbatim>\<open>_update_frame(A)\<close> then \<^verbatim>\<open>_update_frame(B)\<close> with no read
  between, \<^verbatim>\<open>get_frame\<close> returns the processed B and empties the queue, and a
  second \<^verbatim>\<open>get_frame\<close> right after returns the processed B again; the buffer is
  what it would be had A never been written. The processed B is B itself under mapping
  mode NONE. \<^verbatim>\<open>get_frame\<close> returns none on the initial controller, and returns a
  frame once a frame has been written, whatever calls follow. And \<^verbatim>\<open>get_frame\<close>
  never blocks its caller: in every state it returns, where the queue's blocking
  \<^verbatim>\<open>get\<close> would wait on an empty queue.
\<close>

theorem latest_frame_wins:
  "(let B' = apply_color_mapping lib B s;
        s2 = update_frame lib B (update_frame lib A s);
        s3 = s2\<lparr>frame_queue := []\<rparr>
    in get_frame s2 = Some (Some B', s3) \<and> get_frame s3 = Some (Some B', s3) \<and>
       frame_queue s2 = [B'] \<and> last_frame s2 = Some B' \<and>
       frame_queue s2 = frame_queue (update_frame lib B s) \<and>
       last_frame s2 = last_frame (update_frame lib B s) \<and>
       (mapping_mode s = Mapping_NONE \<longrightarrow> B' = B)) \<and>
   get_frame init = Some (None, init) \<and>
   (\<exists>f t'. get_frame (run lib cs (update_frame lib A s)) = Some (Some f, t')) \<and>
   (\<exists>r t'. get_frame t = Some (r, t')) \<and>
   Queue_get True (frame_queue init) = Blocked"
proof -
  have m: "apply_color_mapping lib B (update_frame lib A s) = apply_color_mapping lib B s"
    by (rule apply_color_mapping_mode) (simp add: update_frame_buffer)
  have a: "get_frame init = Some (None, init)"
    by (simp add: get_frame_returns init_def)
  have "last_frame (run lib cs (update_frame lib A s)) \<noteq> None"
    by (rule last_frame_run) (simp add: update_frame_buffer)
  then have b: "\<exists>f t'. get_frame (run lib cs (update_frame lib A s)) = Some (Some f, t')"
    by (auto simp add: get_frame_returns split: list.splits)
  have c: "mapping_mode s = Mapping_NONE \<longrightarrow> apply_color_mapping lib B s = B"
    by (simp add: apply_color_mapping_def)
  have d: "\<exists>r t'. get_frame t = Some (r, t')"
    by (simp add: get_frame_returns split: list.splits)
  have e: "Queue_get True (frame_queue init) = Blocked"
    by (simp add: Queue_get_def init_def)
  show ?thesis
    using a b c d e by (simp add: Let_def update_frame_buffer m get_frame_returns)
qed

theorem latest_frame_wins_witness:
  "mapping_mode init = Mapping_NONE \<and>
   (let s2 = update_frame sample_libs frame_B (update_frame sample_libs frame_A init)
    in frame_queue s2 = [frame_B] \<and>
       get_frame s2 = Some (Some frame_B, s2\<lparr>frame_queue := []\<rparr>) \<and>
       get_frame (s2\<lparr>frame_queue := []\<rparr>) = Some (Some frame_B, s2\<lparr>frame_queue := []\<rparr>))"
  using latest_frame_wins [of sample_libs frame_B init frame_A "[]" init]
  by (simp add: Let_def init_def)

section \<open>Device selection\<close>

lemma open_frame_reader_True:
  "fst (open_frame_reader be st s) = Inr True \<Longrightarrow>
   current_device_index (snd (open_frame_reader be st s)) = current_device_index s"
  by (auto simp add: open_frame_reader_def create_frame_reader_def Let_def
      split: list.splits option.splits if_splits)

lemma open_frame_reader_opens:
  assumes "case frame_sources be of Some src # rest \<Rightarrow> True | _ \<Rightarrow> False"
    and "set_format_ok be" and "create_frame_reader_ok be"
  shows "fst (open_frame_reader be st s) = Inr True"
  using assms
  by (auto simp add: open_frame_reader_def create_frame_reader_def Let_def
      split: list.splits option.splits)

text \<open>
  C7, as stated, fails: index 1 is a valid position in the list of two devices, and
  with a backend that lists no frame source \<^verbatim>\<open>select_device\<close> returns False (the
  guard of line 166).
\<close>

theorem select_device_valid_index_fails:
  "0 \<le> (1::int) \<and> 1 < int (length (devices two_devices)) \<and>
   select_device backend_without_sources 1 False two_devices
     = (Inr False, two_devices\<lparr>current_device_index := 1, media_capture := Some (Some
          \<lparr>source_group = device_B, sharing_mode = SHARED_READ_ONLY,
           streaming_capture_mode = VIDEO, memory_preference = CPU\<rparr>)\<rparr>)"
  by (simp add: two_devices_def find_ir_cameras_def init_def device_A_def device_B_def
      backend_without_sources_def select_device_def open_frame_reader_def Let_def)

text \<open>
  C7, amended. Selecting an index out of range of the device list returns False and
  leaves the whole controller, prior session and \<^verbatim>\<open>current_device_index\<close>, as it
  was. Selecting a valid index succeeds, with \<^verbatim>\<open>current_device_index\<close> equal to
  that index afterwards, provided the backend opens the device: the calls that
  \<^verbatim>\<open>select_device\<close> awaits complete and a frame source is listed. Whenever the
  selection succeeds, the index was valid and is the current one.
\<close>

theorem select_device_index:
  "(index < 0 \<or> int (length (devices s)) \<le> index \<longrightarrow>
      select_device be index exclusive s = (Inr False, s)) \<and>
   (0 \<le> index \<and> index < int (length (devices s)) \<and> backend_opens be exclusive s \<longrightarrow>
      fst (select_device be index exclusive s) = Inr True \<and>
      current_device_index (snd (select_device be index exclusive s)) = index) \<and>
   (fst (select_device be index exclusive s) = Inr True \<longrightarrow>
      0 \<le> index \<and> index < int (length (devices s)) \<and>
      current_device_index (snd (select_device be index exclusive s)) = index)"
proof -
  have a: "index < 0 \<or> int (length (devices s)) \<le> index \<longrightarrow>
      select_device be index exclusive s = (Inr False, s)"
    by (auto simp add: select_device_def)
  have c: "fst (select_device be index exclusive s) = Inr True \<longrightarrow>
      0 \<le> index \<and> index < int (length (devices s)) \<and>
      current_device_index (snd (select_device be index exclusive s)) = index"
    by (auto simp add: select_device_def Let_def open_frame_reader_True split: if_splits)
  have "fst (select_device be index exclusive s) = Inr True"
    if v: "0 \<le> index" "index < int (length (devices s))" and o: "backend_opens be exclusive s"
  proof -
    have src: "case frame_sources be of Some src # rest \<Rightarrow> True | _ \<Rightarrow> False"
      and fmt: "set_format_ok be" and rd: "create_frame_reader_ok be"
      using o by (simp_all add: backend_opens_def)
    have "fst (open_frame_reader be st t) = Inr True" for st t
      by (rule open_frame_reader_opens [OF src fmt rd])
    then show ?thesis
      using v o by (auto simp add: select_device_def Let_def backend_opens_def)
  qed
  then have b: "0 \<le> index \<and> index < int (length (devices s)) \<and> backend_opens be exclusive s \<longrightarrow>
      fst (select_device be index exclusive s) = Inr True \<and>
      current_device_index (snd (select_device be index exclusive s)) = index"
    using c by blast
  show ?thesis
    using a b c by blast
qed

text \<open>
  Device list [A, B]: index 1 is selected, on a fresh controller and on a running
  session, which is stopped first; index 5 fails and changes nothing.
\<close>

theorem select_device_index_witness:
  "0 \<le> (1::int) \<and> 1 < int (length (devices two_devices)) \<and>
   1 < int (length (devices running_session)) \<and>
   (5 < (0::int) \<or> int (length (devices two_devices)) \<le> 5) \<and>
   backend_opens working_backend False two_devices \<and>
   backend_opens working_backend True running_session \<and>
   frame_reader running_session \<noteq> None \<and>
   fst (select_device working_backend 1 False two_devices) = Inr True \<and>
   current_device_index (snd (select_device working_backend 1 False two_devices)) = 1 \<and>
   frame_size (snd (select_device working_backend 1 False two_devices)) = (1280, 720) \<and>
   fst (select_device working_backend 1 True running_session) = Inr True \<and>
   current_device_index (snd (select_device working_backend 1 True running_session)) = 1 \<and>
   \<not> running (snd (select_device working_backend 1 True running_session)) \<and>
   select_device working_backend 5 False two_devices = (Inr False, two_devices)"
  using select_device_index [of 1 two_devices working_backend False]
    select_device_index [of 1 running_session working_backend True]
    select_device_index [of 5 two_devices working_backend False]
  by (simp add: running_session_def two_devices_def find_ir_cameras_def init_def device_A_def
      device_B_def working_backend_def select_device_def open_frame_reader_def
      create_frame_reader_def start_def stop_def stop_recording_def Let_def frame_size_def
      backend_opens_def)

section \<open>Illumination\<close>

text \<open>
  What \<^verbatim>\<open>_check_illumination\<close> leaves in \<^verbatim>\<open>_is_illuminated\<close>: False when either
  read raises, the flag when it is read, and the value of the frame before when the
  infrared sub-frame is None.
\<close>

lemma check_illumination_cases:
  "is_illuminated (check_illumination vf s) =
     (case infrared_media_frame vf of
        Inl e \<Rightarrow> False
      | Inr None \<Rightarrow> is_illuminated s
      | Inr (Some (Inl e)) \<Rightarrow> False
      | Inr (Some (Inr flag)) \<Rightarrow> flag)"
  by (simp add: check_illumination_def split: sum.splits option.splits)

text \<open>
  C8 asks for not-illuminated whenever the flag is unavailable. The code does so when
  a read raises, and misses the case of an absent infrared sub-frame: after an
  illuminated frame, a frame with no infrared sub-frame is still classified as
  illuminated, and the ILLUMINATED filter forwards it to the buffer.
\<close>

theorem check_illumination_absent_subframe:
  "is_illuminated after_illuminated_frame \<and>
   is_illuminated (check_illumination frame_without_infrared after_illuminated_frame) \<and>
   last_frame (on_frame_arrived sample_libs (Inr (Some (Inr (Some frame_without_infrared))))
      after_illuminated_frame) = Some frame_B"
  by (simp add: after_illuminated_frame_def two_devices_def find_ir_cameras_def init_def
      device_A_def device_B_def working_backend_def select_device_def open_frame_reader_def
      create_frame_reader_def start_def set_frame_filter_def on_frame_arrived_def process_frame_def check_illumination_def
      should_display_frame_def convert_bitmap_to_frame_def update_frame_def apply_color_mapping_def
      put_nowait_def illuminated_frame_def frame_without_infrared_def Let_def)

section \<open>Stopping the capture\<close>

text \<open>Every call keeps the controller consistent.\<close>

lemma consistent_fields:
  "video_writer t = video_writer s \<Longrightarrow> is_recording t = is_recording s \<Longrightarrow>
   open_streams t = open_streams s \<Longrightarrow> consistent t = consistent s"
  by (simp add: consistent_def split: option.splits)

lemma consistent_init: "consistent init"
  by (simp add: consistent_def init_def)

lemma consistent_start_recording:
  "consistent s \<Longrightarrow> consistent (snd (start_recording lib d b now s))"
  by (auto simp add: consistent_def start_recording_def makedirs_def Let_def split: option.splits)

lemma consistent_stop_recording:
  "consistent s \<Longrightarrow> consistent (snd (stop_recording s))"
  by (auto simp add: consistent_def stop_recording_def release_def Let_def split: option.splits)

lemma consistent_update_frame:
  "consistent s \<Longrightarrow> consistent (update_frame lib f s)"
  by (auto simp add: consistent_def update_frame_def write_frame_def Let_def split: option.splits)

lemma consistent_check_illumination:
  "consistent (check_illumination vf s) = consistent s"
  by (rule consistent_fields) (simp_all add: check_illumination_def split: option.splits sum.splits)

lemma consistent_process_frame:
  "consistent s \<Longrightarrow> consistent (snd (process_frame lib acq s))"
  by (auto simp add: process_frame_def Let_def consistent_update_frame consistent_check_illumination
      split: option.splits sum.splits)

lemma consistent_stop:
  assumes "consistent s"
  shows "consistent (stop s)"
proof -
  have "consistent (s\<lparr>running := False\<rparr>) = consistent s"
    by (rule consistent_fields) simp_all
  then have b: "consistent (s\<lparr>running := False\<rparr>)"
    using assms by simp
  have c: "consistent (snd (stop_recording (s\<lparr>running := False\<rparr>)))"
    by (rule consistent_stop_recording [OF b])
  have d: "\<And>t x. consistent (t\<lparr>frame_reader := x\<rparr>) = consistent t"
    by (rule consistent_fields) simp_all
  have e: "\<And>t x. consistent (t\<lparr>media_capture := x\<rparr>) = consistent t"
    by (rule consistent_fields) simp_all
  show ?thesis
    using b c by (simp add: stop_def Let_def d e)
qed

lemma consistent_stop_until_stop_async:
  assumes "consistent s"
  shows "consistent (stop_until_stop_async s)"
proof -
  have "consistent (s\<lparr>running := False\<rparr>) = consistent s"
    by (rule consistent_fields) simp_all
  then have b: "consistent (s\<lparr>running := False\<rparr>)"
    using assms by simp
  show ?thesis
    using b consistent_stop_recording [OF b] by (simp add: stop_until_stop_async_def Let_def)
qed

lemma consistent_open_frame_reader:
  "consistent (snd (open_frame_reader be st s)) = consistent s"
  by (rule consistent_fields)
    (simp_all add: open_frame_reader_def create_frame_reader_def Let_def
      split: option.splits list.splits)

lemma consistent_select_device:
  assumes "consistent s"
  shows "consistent (snd (select_device be i ex s))"
proof -
  have b: "consistent (stop s)"
    by (rule consistent_stop [OF assms])
  have c: "\<And>t x y. consistent (t\<lparr>current_device_index := x, media_capture := y\<rparr>) = consistent t"
    by (rule consistent_fields) simp_all
  show ?thesis
    using assms b consistent_stop_until_stop_async [OF assms]
    by (simp add: select_device_def Let_def consistent_open_frame_reader c)
qed

lemma consistent_step:
  assumes "consistent s"
  shows "consistent (step lib c s)"
proof (cases c)
  case (Find_ir_cameras found)
  have "consistent (snd (find_ir_cameras found s)) = consistent s"
    by (rule consistent_fields) (simp_all add: find_ir_cameras_def Let_def)
  then show ?thesis using assms Find_ir_cameras by simp
next
  case (Select_device be index exclusive)
  then show ?thesis using assms by (simp add: consistent_select_device)
next
  case Start
  have "consistent (snd (start s)) = consistent s"
    by (rule consistent_fields) (simp_all add: start_def split: option.splits)
  then show ?thesis using assms Start by simp
next
  case Stop
  then show ?thesis using assms by (simp add: consistent_stop)
next
  case Pause
  have "consistent (pause s) = consistent s"
    by (rule consistent_fields) (simp_all add: pause_def split: option.splits)
  then show ?thesis using assms Pause by simp
next
  case Resume
  have "consistent (resume s) = consistent s"
    by (rule consistent_fields) (simp_all add: resume_def split: option.splits)
  then show ?thesis using assms Resume by simp
next
  case Get_frame
  have "consistent (step lib Get_frame s) = consistent s"
    by (rule consistent_fields) (simp_all add: get_frame_returns split: list.splits)
  then show ?thesis using assms Get_frame by simp
next
  case (On_frame_arrived acquired)
  then show ?thesis using assms by (simp add: on_frame_arrived_def consistent_process_frame)
next
  case (Set_frame_filter v)
  have "consistent (set_frame_filter v s) = consistent s"
    by (rule consistent_fields) (simp_all add: set_frame_filter_def)
  then show ?thesis using assms Set_frame_filter by simp
next
  case (Set_mapping_mode v)
  have "consistent (set_mapping_mode v s) = consistent s"
    by (rule consistent_fields) (simp_all add: set_mapping_mode_def)
  then show ?thesis using assms Set_mapping_mode by simp
next
  case (Take_photo save_dir now)
  have "consistent (snd (take_photo lib save_dir now s)) = consistent s"
    by (rule consistent_fields)
      (simp_all add: take_photo_def makedirs_def Let_def split: option.splits)
  then show ?thesis using assms Take_photo by simp
next
  case (Start_recording save_dir base_fps now)
  then show ?thesis using assms by (simp add: consistent_start_recording)
next
  case Stop_recording
  then show ?thesis using assms by (simp add: consistent_stop_recording)
qed

lemma consistent_run: "consistent s \<Longrightarrow> consistent (run lib cs s)"
  by (induction cs arbitrary: s) (simp_all add: consistent_step)

lemma stop_fields:
  "\<not> running (stop s)" "\<not> is_recording (stop s)" "frame_reader (stop s) = None"
  "media_capture (stop s) = None"
  "video_files (stop s) = video_files (snd (stop_recording s))"
  "open_streams (stop s) = open_streams (snd (stop_recording s))"
  "video_writer (stop s) = video_writer (snd (stop_recording s))"
  "video_path (stop s) = video_path (snd (stop_recording s))"
  by (simp_all add: stop_def stop_recording_def release_def Let_def split: option.splits)

text \<open>
  C9. After \<^verbatim>\<open>stop()\<close>, from every starting state: the controller neither runs nor
  records, and frame reader and capture handle are cleared. What \<^verbatim>\<open>stop()\<close> does
  to the video streams is what \<^verbatim>\<open>stop_recording()\<close> does: when a recording is
  active, the controller afterwards holds no writer and no path, and the writer it held
  is released. After any sequence of calls on a fresh controller, \<^verbatim>\<open>stop()\<close>
  leaves no video stream open.
\<close>

theorem stop_stops_recording:
  "\<not> running (stop s) \<and> \<not> is_recording (stop s) \<and>
   frame_reader (stop s) = None \<and> media_capture (stop s) = None \<and>
   video_files (stop s) = video_files (snd (stop_recording s)) \<and>
   open_streams (stop s) = open_streams (snd (stop_recording s)) \<and>
   (is_recording s \<longrightarrow>
      video_writer (stop s) = None \<and> video_path (stop s) = None \<and>
      (\<forall>w. video_writer s = Some w \<longrightarrow>
         video_files (stop s) = video_files s @ [w] \<and>
         open_streams (stop s) = remove1 (filename w) (open_streams s))) \<and>
   video_writer (stop (run lib cs init)) = None \<and>
   open_streams (stop (run lib cs init)) = []"
proof -
  have "consistent (stop (run lib cs init))"
    by (rule consistent_stop [OF consistent_run [OF consistent_init]])
  then have a: "video_writer (stop (run lib cs init)) = None \<and> open_streams (stop (run lib cs init)) = []"
    using stop_fields(2) [of "run lib cs init"]
    by (auto simp add: consistent_def split: option.splits)
  have b: "is_recording s \<longrightarrow>
      video_writer (stop s) = None \<and> video_path (stop s) = None \<and>
      (\<forall>w. video_writer s = Some w \<longrightarrow>
         video_files (stop s) = video_files s @ [w] \<and>
         open_streams (stop s) = remove1 (filename w) (open_streams s))"
    by (auto simp add: stop_fields stop_recording_def release_def Let_def split: option.splits)
  show ?thesis
    using a b by (simp add: stop_fields)
qed

theorem stop_stops_recording_witness:
  "is_recording recording_session \<and> running recording_session \<and>
   frame_reader recording_session \<noteq> None \<and>
   open_streams recording_session = [''videos/IR_Video_20240101_120000_OFF.avi''] \<and>
   \<not> is_recording (stop recording_session) \<and> \<not> running (stop recording_session) \<and>
   frame_reader (stop recording_session) = None \<and> media_capture (stop recording_session) = None \<and>
   video_writer (stop recording_session) = None \<and> open_streams (stop recording_session) = [] \<and>
   video_files (stop recording_session) =
     [\<lparr>filename = ''videos/IR_Video_20240101_120000_OFF.avi'', fourcc = ''XVID'', fps = 15,
       frameSize = (1280, 720), written = [[[(1, 2, 3)]]]\<rparr>]"
  using stop_stops_recording [of recording_session sample_libs "[]"]
  by (simp add: recording_session_def two_devices_def find_ir_cameras_def init_def
      device_A_def device_B_def working_backend_def select_device_def open_frame_reader_def
      create_frame_reader_def start_def on_frame_arrived_def process_frame_def check_illumination_def
      should_display_frame_def convert_bitmap_to_frame_def update_frame_def apply_color_mapping_def
      put_nowait_def illuminated_frame_def Let_def start_recording_def makedirs_def sample_libs_def
      write_frame_def COLOR_BGRA2BGR_def frame_A_def stop_def stop_recording_def release_def)

section \<open>Photo\<close>

text \<open>
  C10. \<^verbatim>\<open>take_photo\<close> returns none exactly when \<^verbatim>\<open>_last_frame\<close> is absent, and
  then changes nothing: no directory, no file. Otherwise it returns the path
  \<^verbatim>\<open>IR_Photo_<timestamp>.jpg\<close> joined to the directory, has written the last frame
  there without its alpha channel, and the directory exists. \<^verbatim>\<open>_last_frame\<close> is
  absent on a fresh controller and stays so while no frame-arrived callback runs; once
  \<^verbatim>\<open>_update_frame\<close> has processed a frame, \<^verbatim>\<open>take_photo\<close> returns a path
  whatever calls came between.
\<close>

theorem take_photo_none_iff_no_frame:
  "(fst (take_photo lib save_dir now s) = None) = (last_frame s = None) \<and>
   (last_frame s = None \<longrightarrow> take_photo lib save_dir now s = (None, s)) \<and>
   (\<forall>f. last_frame s = Some f \<longrightarrow>
      (let p = path_join lib save_dir (''IR_Photo_'' @ now @ ''.jpg'');
           r = take_photo lib save_dir now s
       in fst r = Some p \<and> photo_files (snd r) = photo_files s @ [(p, COLOR_BGRA2BGR f)] \<and>
          save_dir \<in> set (directories (snd r)))) \<and>
   (list_all (\<lambda>c. \<not> is_callback c) cs \<longrightarrow>
      take_photo lib save_dir now (run lib cs init) = (None, run lib cs init)) \<and>
   fst (take_photo lib save_dir now (run lib cs (update_frame lib f0 s))) \<noteq> None"
proof -
  have a: "(fst (take_photo lib save_dir now t) = None) = (last_frame t = None)" for t
    by (simp add: take_photo_def Let_def split: option.splits)
  have b: "last_frame t = None \<longrightarrow> take_photo lib save_dir now t = (None, t)" for t
    by (simp add: take_photo_def)
  have c: "\<forall>f. last_frame s = Some f \<longrightarrow>
      (let p = path_join lib save_dir (''IR_Photo_'' @ now @ ''.jpg'');
           r = take_photo lib save_dir now s
       in fst r = Some p \<and> photo_files (snd r) = photo_files s @ [(p, COLOR_BGRA2BGR f)] \<and>
          save_dir \<in> set (directories (snd r)))"
    by (simp add: take_photo_def makedirs_def Let_def)
  have d: "list_all (\<lambda>c. \<not> is_callback c) cs \<longrightarrow>
      take_photo lib save_dir now (run lib cs init) = (None, run lib cs init)"
  proof
    assume "list_all (\<lambda>c. \<not> is_callback c) cs"
    then have "last_frame (run lib cs init) = None"
      by (simp add: last_frame_run_other init_def)
    then show "take_photo lib save_dir now (run lib cs init) = (None, run lib cs init)"
      using b by simp
  qed
  have "last_frame (run lib cs (update_frame lib f0 s)) \<noteq> None"
    by (rule last_frame_run) (simp add: update_frame_buffer)
  then have e: "fst (take_photo lib save_dir now (run lib cs (update_frame lib f0 s))) \<noteq> None"
    by (simp add: a)
  show ?thesis
    using a [of s] b [of s] c d e by simp
qed

theorem take_photo_none_iff_no_frame_witness:
  "last_frame init = None \<and> last_frame after_illuminated_frame = Some frame_A \<and>
   list_all (\<lambda>c. \<not> is_callback c) [Start, Get_frame, Take_photo ''photos'' ''20240101_115959''] \<and>
   take_photo sample_libs ''photos'' ''20240101_120000'' init = (None, init) \<and>
   take_photo sample_libs ''photos'' ''20240101_120000'' after_illuminated_frame
     = (Some ''photos/IR_Photo_20240101_120000.jpg'',
        after_illuminated_frame\<lparr>directories := [''photos''],
          photo_files := [(''photos/IR_Photo_20240101_120000.jpg'', [[(1, 2, 3)]])]\<rparr>)"
  using take_photo_none_iff_no_frame [of sample_libs "''photos''" "''20240101_120000''" init
         "[Start, Get_frame, Take_photo ''photos'' ''20240101_115959'']"]
    take_photo_none_iff_no_frame [of sample_libs "''photos''" "''20240101_120000''" after_illuminated_frame "[]"]
  by (simp add: after_illuminated_frame_def two_devices_def find_ir_cameras_def init_def
      device_A_def device_B_def working_backend_def select_device_def open_frame_reader_def
      create_frame_reader_def start_def set_frame_filter_def on_frame_arrived_def process_frame_def check_illumination_def
      should_display_frame_def convert_bitmap_to_frame_def update_frame_def apply_color_mapping_def
      put_nowait_def illuminated_frame_def Let_def take_photo_def makedirs_def sample_libs_def
      COLOR_BGRA2BGR_def frame_A_def get_frame_def get_nowait_def Queue_get_def)

end
